theory Spec2Isabelle
  imports Complex_Main
begin

section \<open>Values, responses and errors\<close>

text \<open>
  The adapter of \<^verbatim>\<open>src/index.ts\<close> moves JavaScript values between the request, the
  schemas and the callbacks. A number is \<^verbatim>\<open>NaN\<close>, an infinity, or a finite value, taken
  as a rational (every finite double is one). A value is a JSON value, \<^verbatim>\<open>undefined\<close>, or
  a response object: \<^verbatim>\<open>getData\<close> returns a \<^verbatim>\<open>NextResponse\<close> as its \<^verbatim>\<open>data\<close> on one
  path, so a response must be a value too. A string is a list of code units below 256.
  An object is the list of its own properties in the order \<^verbatim>\<open>Object.entries\<close> gives
  them.

  A response is what \<^verbatim>\<open>NextResponse.json\<close> or \<^verbatim>\<open>new NextResponse\<close> has built: a JSON
  or a text body and the status the constructor has stored.
\<close>

datatype js_number = NaN | PosInfinity | NegInfinity | Finite rat

datatype js_value =
    JUndefined
  | JNull
  | JBool bool
  | JNum js_number
  | JStr string
  | JArr "js_value list"
  | JObj "(string \<times> js_value) list"
  | JResponse response
and response =
    JsonResponse js_value int
  | TextResponse string int


fun status_of :: "response \<Rightarrow> int" where
  "status_of (JsonResponse _ st) = st"
| "status_of (TextResponse _ st) = st"

section \<open>Own properties\<close>

text \<open>
  The own property keys of an object come in this order: the array indices (the decimal
  numerals, without leading zeros, of the numbers below \<open>2\<^sup>3\<^sup>2 - 1\<close>) in ascending order,
  then the other keys in the order of their creation. \<open>define_property\<close> creates an own
  property or, where the key exists, replaces its value in place; \<open>create_object\<close> is
  the object that has been given the entries one after the other.
\<close>

definition is_digit :: "char \<Rightarrow> bool" where
  "is_digit c = (48 \<le> (of_char c :: nat) \<and> (of_char c :: nat) \<le> 57)"

definition digit_value :: "char \<Rightarrow> nat" where
  "digit_value c = of_char c - 48"

definition digit_char :: "nat \<Rightarrow> char" where
  "digit_char d = ''0123456789'' ! d"

fun decimal :: "nat \<Rightarrow> string" where
  "decimal n = (if n < 10 then [digit_char n] else decimal (n div 10) @ [digit_char (n mod 10)])"

definition read_decimal :: "string \<Rightarrow> nat" where
  "read_decimal ds = foldl (\<lambda>a c. 10 * a + digit_value c) 0 ds"

definition canonical_digits :: "string \<Rightarrow> bool" where
  "canonical_digits ds = (ds \<noteq> [] \<and> list_all is_digit ds \<and> (ds = ''0'' \<or> hd ds \<noteq> CHR ''0''))"

definition array_index :: "string \<Rightarrow> nat option" where
  "array_index key =
     (if canonical_digits key \<and> read_decimal key < 4294967295 then Some (read_decimal key) else None)"

fun insert_index :: "nat \<Rightarrow> string \<times> js_value \<Rightarrow> (string \<times> js_value) list \<Rightarrow> (string \<times> js_value) list" where
  "insert_index i entry [] = [entry]"
| "insert_index i entry (p # ps) =
     (case array_index (fst p) of
        Some j \<Rightarrow> if j < i then p # insert_index i entry ps else entry # p # ps
      | None \<Rightarrow> entry # p # ps)"

definition define_property :: "string \<Rightarrow> js_value \<Rightarrow> (string \<times> js_value) list \<Rightarrow> (string \<times> js_value) list" where
  "define_property key val obj =
     (if key \<in> fst ` set obj then map (\<lambda>p. if fst p = key then (key, val) else p) obj
      else case array_index key of
             Some i \<Rightarrow> insert_index i (key, val) obj
           | None \<Rightarrow> obj @ [(key, val)])"

definition create_object :: "(string \<times> js_value) list \<Rightarrow> (string \<times> js_value) list" where
  "create_object entries = foldl (\<lambda>obj (key, val). define_property key val obj) [] entries"

text \<open>The lists of keys in which an object can have its own properties.\<close>

fun index_ordered :: "string list \<Rightarrow> bool" where
  "index_ordered [] = True"
| "index_ordered [k] = True"
| "index_ordered (k # k' # ks) =
     ((case array_index k' of
         Some j \<Rightarrow> (case array_index k of Some i \<Rightarrow> i < j | None \<Rightarrow> False)
       | None \<Rightarrow> True)
      \<and> index_ordered (k' # ks))"

definition own_keys :: "string list \<Rightarrow> bool" where
  "own_keys ks = (distinct ks \<and> index_ordered ks)"

section \<open>JSON\<close>

text \<open>
  \<^verbatim>\<open>JSON.stringify\<close> and \<^verbatim>\<open>JSON.parse\<close> belong to the runtime. They are modelled where
  their result can be written down here, and left to the host elsewhere.

  \<open>serialize\<close> is \<^verbatim>\<open>JSON.stringify\<close> on the values of \<open>json_value\<close>: \<^verbatim>\<open>null\<close>, the
  booleans, the integers from \<open>-(2\<^sup>5\<^sup>3 - 1)\<close> to \<open>2\<^sup>5\<^sup>3 - 1\<close> (which
  \<^verbatim>\<open>JSON.stringify\<close> writes as decimal numerals), strings, and arrays and objects of
  such values. Other numbers would need the decimal form of a double.
\<close>

definition quote_char :: char where
  "quote_char = CHR 0x22"

definition backslash :: char where
  "backslash = CHR 0x5C"

definition hex_char :: "nat \<Rightarrow> char" where
  "hex_char d = ''0123456789abcdef'' ! d"

definition escape :: "char \<Rightarrow> string" where
  "escape c =
     (if c = quote_char then [backslash, quote_char]
      else if c = backslash then [backslash, backslash]
      else if c = CHR 0x08 then [backslash, CHR ''b'']
      else if c = CHR 0x0C then [backslash, CHR ''f'']
      else if c = CHR 0x0A then [backslash, CHR ''n'']
      else if c = CHR 0x0D then [backslash, CHR ''r'']
      else if c = CHR 0x09 then [backslash, CHR ''t'']
      else if (of_char c :: nat) < 32
        then [backslash, CHR ''u'', CHR ''0'', CHR ''0'',
              hex_char (of_char c div 16), hex_char (of_char c mod 16)]
      else [c])"

definition quote :: "string \<Rightarrow> string" where
  "quote s = quote_char # concat (map escape s) @ [quote_char]"

definition safe_integer :: "js_number \<Rightarrow> bool" where
  "safe_integer x =
     (case x of
        Finite q \<Rightarrow> q = of_int \<lfloor>q\<rfloor> \<and> \<bar>\<lfloor>q\<rfloor>\<bar> \<le> 9007199254740991
      | _ \<Rightarrow> False)"

definition integer_text :: "int \<Rightarrow> string" where
  "integer_text n = (if n < 0 then CHR ''-'' # decimal (nat (- n)) else decimal (nat n))"

definition number_text :: "js_number \<Rightarrow> string" where
  "number_text x = (case x of Finite q \<Rightarrow> integer_text \<lfloor>q\<rfloor> | _ \<Rightarrow> ''null'')"

fun join :: "string list \<Rightarrow> string" where
  "join [] = []"
| "join [x] = x"
| "join (x # y # zs) = x @ CHR '','' # join (y # zs)"

primrec json_value :: "js_value \<Rightarrow> bool" where
  "json_value JUndefined = False"
| "json_value JNull = True"
| "json_value (JBool b) = True"
| "json_value (JNum x) = safe_integer x"
| "json_value (JStr s) = True"
| "json_value (JArr vs) = list_all id (map json_value vs)"
| "json_value (JObj es) = (own_keys (map fst es) \<and> list_all snd (map (map_prod id json_value) es))"
| "json_value (JResponse r) = False"

text \<open>Outside \<open>json_value\<close> the text below is not used.\<close>

primrec serialize :: "js_value \<Rightarrow> string" where
  "serialize JUndefined = ''null''"
| "serialize JNull = ''null''"
| "serialize (JBool b) = (if b then ''true'' else ''false'')"
| "serialize (JNum x) = number_text x"
| "serialize (JStr s) = quote s"
| "serialize (JArr vs) = CHR ''['' # join (map serialize vs) @ '']''"
| "serialize (JObj es) =
     CHR ''{'' # join (map (\<lambda>(k, t). quote k @ CHR '':'' # t) (map (map_prod id serialize) es)) @ ''}''"
| "serialize (JResponse r) = ''{}''"

text \<open>
  \<open>JSON_text\<close> is \<^verbatim>\<open>JSON.parse\<close> on the JSON texts without white space whose numbers
  are integers in the same range, other than \<^verbatim>\<open>-0\<close>, and whose strings hold no escape
  of a code unit above 255; on every other text it is \<open>None\<close>. The fuel is the length of
  the text: every call reads at least one character.
\<close>

definition hex_value :: "char \<Rightarrow> nat option" where
  "hex_value c =
     (let n = (of_char c :: nat)
      in if 48 \<le> n \<and> n \<le> 57 then Some (n - 48)
         else if 97 \<le> n \<and> n \<le> 102 then Some (n - 87)
         else if 65 \<le> n \<and> n \<le> 70 then Some (n - 55)
         else None)"

definition hex4 :: "char \<Rightarrow> char \<Rightarrow> char \<Rightarrow> char \<Rightarrow> nat option" where
  "hex4 a b c d =
     (case (hex_value a, hex_value b, hex_value c, hex_value d) of
        (Some w, Some x, Some y, Some z) \<Rightarrow> Some (((w * 16 + x) * 16 + y) * 16 + z)
      | _ \<Rightarrow> None)"

definition cons_char :: "char \<Rightarrow> (string \<times> string) option \<Rightarrow> (string \<times> string) option" where
  "cons_char c r = (case r of None \<Rightarrow> None | Some (s, rest) \<Rightarrow> Some (c # s, rest))"

text \<open>The characters of a string up to its closing quote, and the text after it.\<close>

fun unquote :: "string \<Rightarrow> (string \<times> string) option" where
  "unquote [] = None"
| "unquote (c # cs) =
     (if c = quote_char then Some ([], cs)
      else if c = backslash then
        (case cs of
           [] \<Rightarrow> None
         | e # r \<Rightarrow>
             if e = quote_char then cons_char quote_char (unquote r)
             else if e = backslash then cons_char backslash (unquote r)
             else if e = CHR ''/'' then cons_char (CHR ''/'') (unquote r)
             else if e = CHR ''b'' then cons_char (CHR 0x08) (unquote r)
             else if e = CHR ''f'' then cons_char (CHR 0x0C) (unquote r)
             else if e = CHR ''n'' then cons_char (CHR 0x0A) (unquote r)
             else if e = CHR ''r'' then cons_char (CHR 0x0D) (unquote r)
             else if e = CHR ''t'' then cons_char (CHR 0x09) (unquote r)
             else if e = CHR ''u'' then
               (case r of
                  w # x # y # z # r' \<Rightarrow>
                    (case hex4 w x y z of
                       Some n \<Rightarrow> if n < 256 then cons_char (char_of n) (unquote r') else None
                     | None \<Rightarrow> None)
                | _ \<Rightarrow> None)
             else None)
      else if (of_char c :: nat) < 32 then None
      else cons_char c (unquote cs))"

definition strip_prefix :: "string \<Rightarrow> string \<Rightarrow> string option" where
  "strip_prefix p t = (if take (length p) t = p then Some (drop (length p) t) else None)"

definition parse_number :: "string \<Rightarrow> (js_value \<times> string) option" where
  "parse_number t =
     (let negative = (t \<noteq> [] \<and> hd t = CHR ''-'');
          t' = (if negative then tl t else t);
          ds = takeWhile is_digit t';
          rest = dropWhile is_digit t';
          n = read_decimal ds
      in if canonical_digits ds \<and> n \<le> 9007199254740991 \<and> (negative \<longrightarrow> n \<noteq> 0)
            \<and> (rest = [] \<or> hd rest \<notin> {CHR ''.'', CHR ''e'', CHR ''E''})
         then Some (JNum (Finite (of_int (if negative then - int n else int n))), rest)
         else None)"

fun parse_value :: "nat \<Rightarrow> string \<Rightarrow> (js_value \<times> string) option"
and parse_elements :: "nat \<Rightarrow> string \<Rightarrow> (js_value list \<times> string) option"
and parse_members :: "nat \<Rightarrow> string \<Rightarrow> ((string \<times> js_value) list \<times> string) option" where
  "parse_value 0 t = None"
| "parse_value (Suc fuel) t =
     (case strip_prefix ''null'' t of Some r \<Rightarrow> Some (JNull, r) | None \<Rightarrow>
      case strip_prefix ''true'' t of Some r \<Rightarrow> Some (JBool True, r) | None \<Rightarrow>
      case strip_prefix ''false'' t of Some r \<Rightarrow> Some (JBool False, r) | None \<Rightarrow>
      case strip_prefix [quote_char] t of
        Some r \<Rightarrow> (case unquote r of Some (s, r') \<Rightarrow> Some (JStr s, r') | None \<Rightarrow> None)
      | None \<Rightarrow>
      case strip_prefix ''[]'' t of Some r \<Rightarrow> Some (JArr [], r) | None \<Rightarrow>
      case strip_prefix ''['' t of
        Some r \<Rightarrow> (case parse_elements fuel r of Some (vs, r') \<Rightarrow> Some (JArr vs, r') | None \<Rightarrow> None)
      | None \<Rightarrow>
      case strip_prefix ''{}'' t of Some r \<Rightarrow> Some (JObj [], r) | None \<Rightarrow>
      case strip_prefix ''{'' t of
        Some r \<Rightarrow>
          (case parse_members fuel r of
             Some (es, r') \<Rightarrow> Some (JObj (create_object es), r')
           | None \<Rightarrow> None)
      | None \<Rightarrow> parse_number t)"
| "parse_elements 0 t = None"
| "parse_elements (Suc fuel) t =
     (case parse_value fuel t of
        None \<Rightarrow> None
      | Some (v, r) \<Rightarrow>
          (case strip_prefix '']'' r of Some r' \<Rightarrow> Some ([v], r') | None \<Rightarrow>
           case strip_prefix '','' r of
             Some r' \<Rightarrow>
               (case parse_elements fuel r' of Some (vs, r'') \<Rightarrow> Some (v # vs, r'') | None \<Rightarrow> None)
           | None \<Rightarrow> None))"
| "parse_members 0 t = None"
| "parse_members (Suc fuel) t =
     (case strip_prefix [quote_char] t of
        None \<Rightarrow> None
      | Some r0 \<Rightarrow>
     (case unquote r0 of
        None \<Rightarrow> None
      | Some (k, r1) \<Rightarrow>
     (case strip_prefix '':'' r1 of
        None \<Rightarrow> None
      | Some r2 \<Rightarrow>
     (case parse_value fuel r2 of
        None \<Rightarrow> None
      | Some (v, r) \<Rightarrow>
          (case strip_prefix ''}'' r of Some r' \<Rightarrow> Some ([(k, v)], r') | None \<Rightarrow>
           case strip_prefix '','' r of
             Some r' \<Rightarrow>
               (case parse_members fuel r' of
                  Some (es, r'') \<Rightarrow> Some ((k, v) # es, r'')
                | None \<Rightarrow> None)
           | None \<Rightarrow> None)))))"

definition JSON_text :: "string \<Rightarrow> js_value option" where
  "JSON_text t = (case parse_value (Suc (length t)) t of Some (v, []) \<Rightarrow> Some v | _ \<Rightarrow> None)"

text \<open>
  For the proof that a text is read back: what may follow a value in a text, and what
  it means for a value to be read back with any fuel its text needs.
\<close>

definition follow :: "string \<Rightarrow> bool" where
  "follow rest = (rest = [] \<or> hd rest = CHR '','' \<or> hd rest = CHR '']'' \<or> hd rest = CHR ''}'')"


text \<open>
  The host: what \<^verbatim>\<open>JSON.parse\<close> returns on the texts \<open>JSON_text\<close> does not take
  (\<open>None\<close> when it throws) and what \<^verbatim>\<open>JSON.stringify\<close> returns on the values outside
  \<open>json_value\<close>; the messages of the two errors the constructor of a response throws;
  and the entries of \<^verbatim>\<open>headers()\<close>.
\<close>

record Host =
  parse_other :: "string \<Rightarrow> js_value option"
  stringify_other :: "js_value \<Rightarrow> string"
  RangeError_message :: string
  TypeError_message :: string
  next_headers :: "(string \<times> string) list"

definition JSON_parse :: "Host \<Rightarrow> string \<Rightarrow> js_value option" where
  "JSON_parse h t = (case JSON_text t of Some v \<Rightarrow> Some v | None \<Rightarrow> parse_other h t)"

definition JSON_stringify :: "Host \<Rightarrow> js_value \<Rightarrow> string" where
  "JSON_stringify h v = (if json_value v then serialize v else stringify_other h v)"

section \<open>Errors and the construction of a response\<close>

text \<open>
  Whatever a callback can throw: an \<^verbatim>\<open>ApiHandlerError\<close> (its \<^verbatim>\<open>message\<close> and
  \<^verbatim>\<open>statusCode\<close>), another \<^verbatim>\<open>Error\<close> (its \<^verbatim>\<open>message\<close>), or a value that is no
  \<^verbatim>\<open>Error\<close> at all.
\<close>

datatype thrown =
    ApiHandlerError string js_number
  | Error string
  | NonError js_value

text \<open>
  The constructor of \<^verbatim>\<open>ApiHandlerError\<close>: \<^verbatim>\<open>typeof message === 'string' ? message :
  JSON.stringify(message)\<close>; the status code defaults to 400.
\<close>

definition new_ApiHandlerError :: "Host \<Rightarrow> js_value \<Rightarrow> js_number option \<Rightarrow> thrown" where
  "new_ApiHandlerError h message statusCode =
     ApiHandlerError
       (case message of JStr s \<Rightarrow> s | _ \<Rightarrow> JSON_stringify h message)
       (case statusCode of None \<Rightarrow> Finite 400 | Some c \<Rightarrow> c)"

text \<open>
  The constructor of a response takes \<^verbatim>\<open>init.status\<close> as an \<^verbatim>\<open>unsigned short\<close>: the
  number is truncated and reduced modulo \<open>2\<^sup>1\<^sup>6\<close>, and \<^verbatim>\<open>NaN\<close> and the infinities
  become 0. It throws a \<^verbatim>\<open>RangeError\<close> if the result is not from 200 to 599, and, the
  body being present, a \<^verbatim>\<open>TypeError\<close> if the result is a null body status. Both
  \<^verbatim>\<open>NextResponse.json(body, {status})\<close> and \<^verbatim>\<open>new NextResponse(text, {status})\<close> are
  called with a body.
\<close>

definition ToUint16 :: "js_number \<Rightarrow> int" where
  "ToUint16 x =
     (case x of
        Finite q \<Rightarrow> (if 0 \<le> q then \<lfloor>q\<rfloor> else - \<lfloor>- q\<rfloor>) mod 65536
      | _ \<Rightarrow> 0)"

definition null_body_status :: "int \<Rightarrow> bool" where
  "null_body_status st = (st = 101 \<or> st = 103 \<or> st = 204 \<or> st = 205 \<or> st = 304)"

definition initialize_response :: "Host \<Rightarrow> js_number \<Rightarrow> thrown + int" where
  "initialize_response h status =
     (let st = ToUint16 status
      in if st < 200 \<or> 599 < st then Inl (Error (RangeError_message h))
         else if null_body_status st then Inl (Error (TypeError_message h))
         else Inr st)"

definition NextResponse_json :: "Host \<Rightarrow> js_value \<Rightarrow> js_number \<Rightarrow> thrown + response" where
  "NextResponse_json h body status =
     (case initialize_response h status of Inl e \<Rightarrow> Inl e | Inr st \<Rightarrow> Inr (JsonResponse body st))"

definition new_NextResponse :: "Host \<Rightarrow> string \<Rightarrow> js_number \<Rightarrow> thrown + response" where
  "new_NextResponse h body status =
     (case initialize_response h status of Inl e \<Rightarrow> Inl e | Inr st \<Rightarrow> Inr (TextResponse body st))"

section \<open>Schemas, requests, the context and the setup\<close>

record ZodIssue =
  message :: string
  path :: "js_value list"

text \<open>
  \<^verbatim>\<open>schema.safeParse(data)\<close> returns \<^verbatim>\<open>{success: true, data}\<close> or
  \<^verbatim>\<open>{success: false, error}\<close> with the issues in \<^verbatim>\<open>error.errors\<close>. A schema is the
  function it computes.
\<close>

datatype SafeParseReturn = Success js_value | Failure "ZodIssue list"

type_synonym ZodSchema = "js_value \<Rightarrow> SafeParseReturn"

datatype ValidationKeys = Body | Segment | Query | Headers

fun key_name :: "ValidationKeys \<Rightarrow> string" where
  "key_name Body = ''body''"
| "key_name Segment = ''segment''"
| "key_name Query = ''query''"
| "key_name Headers = ''headers''"

text \<open>
  What the adapter reads of a request: the outcome of \<^verbatim>\<open>req.json()\<close> (\<open>None\<close> when the
  promise rejects), the entries of \<^verbatim>\<open>new URL(req.url).searchParams\<close>, and the
  \<^verbatim>\<open>params\<close> of the event.
\<close>

record NextRequest =
  json :: "js_value option"
  searchParams :: "(string \<times> string) list"

record NextFetchEvent =
  params :: js_value

record HandlerContext =
  req :: NextRequest
  nfe :: NextFetchEvent
  body :: js_value
  query :: js_value
  segment :: js_value
  headers :: js_value
  errors :: "ZodIssue list"

text \<open>
  A callback receives the context object itself and may assign to it, so the pre-handler
  returns the context as it leaves it, or throws. The handler returns a response or
  nothing, or throws.
\<close>

datatype pre_outcome = Resolved HandlerContext | Rejected thrown

datatype completion = Returns "response option" | Throws thrown

record Config =
  return400ValidationError :: bool

text \<open>
  \<^verbatim>\<open>setup.schema\<close> is the list of its entries in enumeration order
  (\<^verbatim>\<open>Object.entries\<close>); an entry may hold \<^verbatim>\<open>undefined\<close>.
\<close>

record Setup =
  schema :: "(ValidationKeys \<times> ZodSchema option) list option"
  preHandler :: "(HandlerContext \<Rightarrow> pre_outcome) option"
  config :: "Config option"

section \<open>The adapter\<close>

text \<open>
  What the adapter does to the outside, in the order it does it: the call
  \<^verbatim>\<open>getData(el)\<close>; the evaluation of \<^verbatim>\<open>setup.schema[el]?.safeParse(data)\<close>, with the
  data and the value (\<open>None\<close> for \<^verbatim>\<open>undefined\<close>); a line written by \<^verbatim>\<open>console.log\<close>;
  the call of the pre-handler and the call of the handler, each with the context passed.
\<close>

datatype effect =
    GetData ValidationKeys
  | SafeParse ValidationKeys js_value "SafeParseReturn option"
  | ConsoleLog string
  | PreHandler HandlerContext
  | Handler HandlerContext

text \<open>\<^verbatim>\<open>{...defaultConfig, ...(setup.config || {})}\<close>\<close>

definition defaultConfig :: Config where
  "defaultConfig = \<lparr>return400ValidationError = True\<rparr>"

definition config_of :: "Setup \<Rightarrow> Config" where
  "config_of s = (case config s of None \<Rightarrow> defaultConfig | Some c \<Rightarrow> c)"

definition first_issue :: "ZodIssue list \<Rightarrow> ZodIssue option" where
  "first_issue is = (case is of [] \<Rightarrow> None | i # _ \<Rightarrow> Some i)"

definition validationError :: "string \<Rightarrow> ZodIssue option \<Rightarrow> response" where
  "validationError type data =
     JsonResponse
       (JObj [(''type'', JStr type),
              (''status'', JStr ''validation_error''),
              (''message'', JStr (case data of None \<Rightarrow> '''' | Some i \<Rightarrow> message i)),
              (''path'', JArr (case data of None \<Rightarrow> [] | Some i \<Rightarrow> path i))])
       400"

text \<open>
  \<^verbatim>\<open>obj[key] = val\<close> for a string \<^verbatim>\<open>val\<close>, as in \<^verbatim>\<open>objectFromEntries\<close>: the key
  \<^verbatim>\<open>__proto__\<close> reaches the setter of \<^verbatim>\<open>Object.prototype\<close>, which ignores a string and
  creates no property; every other key becomes an own property.
\<close>

definition obj_set :: "string \<Rightarrow> string \<Rightarrow> (string \<times> js_value) list \<Rightarrow> (string \<times> js_value) list" where
  "obj_set key val obj = (if key = ''__proto__'' then obj else define_property key (JStr val) obj)"

definition objectFromEntries :: "(string \<times> string) list \<Rightarrow> js_value" where
  "objectFromEntries entries = JObj (foldl (\<lambda>obj (key, val). obj_set key val obj) [] entries)"

definition invalid_json_response :: "ValidationKeys \<Rightarrow> response" where
  "invalid_json_response type =
     JsonResponse
       (JObj [(''type'', JStr (key_name type)),
              (''status'', JStr ''error''),
              (''message'', JStr ''Invalid JSON body provided''),
              (''path'', JArr [])])
       400"

text \<open>
  \<^verbatim>\<open>getData\<close> returns the data and what it logged. When \<^verbatim>\<open>req.json()\<close> rejects and
  \<^verbatim>\<open>return400ValidationError\<close> is set, the value it returns is the response object:
  the \<^verbatim>\<open>return\<close> is that of \<^verbatim>\<open>getData\<close>, not of the request handler. The
  \<^verbatim>\<open>default\<close> branch of the \<^verbatim>\<open>switch\<close> has no counterpart: the four keys are all
  the type \<^verbatim>\<open>ValidationKeys\<close> has.
\<close>

definition getData :: "Host \<Rightarrow> Config \<Rightarrow> NextRequest \<Rightarrow> NextFetchEvent \<Rightarrow> ValidationKeys \<Rightarrow> js_value \<times> effect list" where
  "getData h cfg rq ev type =
     (case type of
        Body \<Rightarrow>
          (case json rq of
             Some v \<Rightarrow> (v, [])
           | None \<Rightarrow>
               if return400ValidationError cfg
               then (JResponse (invalid_json_response type), [])
               else (JObj [], [ConsoleLog ''Invalid JSON body provided'']))
      | Segment \<Rightarrow> (params ev, [])
      | Query \<Rightarrow> (objectFromEntries (searchParams rq), [])
      | Headers \<Rightarrow> (objectFromEntries (next_headers h), []))"

definition toBeParsedList :: "Setup \<Rightarrow> ValidationKeys list" where
  "toBeParsedList s =
     (case schema s of
        Some sch \<Rightarrow> map fst (filter (\<lambda>(key, val). val \<noteq> None) sch)
      | None \<Rightarrow> [])"

text \<open>\<^verbatim>\<open>setup.schema[el]?.safeParse(data)\<close>\<close>

definition safeParse_el :: "Setup \<Rightarrow> ValidationKeys \<Rightarrow> js_value \<Rightarrow> SafeParseReturn option" where
  "safeParse_el s el data =
     (case schema s of
        None \<Rightarrow> None
      | Some sch \<Rightarrow>
          (case map_of sch el of
             Some (Some sc) \<Rightarrow> Some (sc data)
           | _ \<Rightarrow> None))"

text \<open>\<^verbatim>\<open>context[el] = parsed.data\<close> and \<^verbatim>\<open>context[el]\<close>\<close>

fun set_field :: "ValidationKeys \<Rightarrow> js_value \<Rightarrow> HandlerContext \<Rightarrow> HandlerContext" where
  "set_field Body v c = c\<lparr>body := v\<rparr>"
| "set_field Segment v c = c\<lparr>segment := v\<rparr>"
| "set_field Query v c = c\<lparr>query := v\<rparr>"
| "set_field Headers v c = c\<lparr>headers := v\<rparr>"

fun get_field :: "ValidationKeys \<Rightarrow> HandlerContext \<Rightarrow> js_value" where
  "get_field Body c = body c"
| "get_field Segment c = segment c"
| "get_field Query c = query c"
| "get_field Headers c = headers c"

text \<open>
  The body of the loop over \<^verbatim>\<open>toBeParsedList\<close>, for one \<^verbatim>\<open>el\<close>: the response it
  returns (if it returns), the context it leaves, and its effects.
\<close>

definition parse_el ::
  "Host \<Rightarrow> Setup \<Rightarrow> NextRequest \<Rightarrow> NextFetchEvent \<Rightarrow> ValidationKeys \<Rightarrow> HandlerContext
     \<Rightarrow> response option \<times> HandlerContext \<times> effect list" where
  "parse_el h s rq ev el context =
     (let (data, logged) = getData h (config_of s) rq ev el;
          parsed = safeParse_el s el data;
          effects = GetData el # logged @ [SafeParse el data parsed]
      in case parsed of
           Some (Success d) \<Rightarrow> (None, set_field el d context, effects)
         | Some (Failure is) \<Rightarrow>
             (if return400ValidationError (config_of s)
              then Some (validationError (key_name el) (first_issue is))
              else None,
              context\<lparr>errors := errors context @ is\<rparr>, effects)
         | None \<Rightarrow>
             (if return400ValidationError (config_of s)
              then Some (validationError (key_name el) None)
              else None,
              context, effects))"

fun for_toBeParsedList ::
  "(ValidationKeys \<Rightarrow> HandlerContext \<Rightarrow> response option \<times> HandlerContext \<times> effect list)
     \<Rightarrow> ValidationKeys list \<Rightarrow> HandlerContext
     \<Rightarrow> response option \<times> HandlerContext \<times> effect list" where
  "for_toBeParsedList f [] context = (None, context, [])"
| "for_toBeParsedList f (el # els) context =
     (case f el context of
        (Some r, context', effects) \<Rightarrow> (Some r, context', effects)
      | (None, context', effects) \<Rightarrow>
          (case for_toBeParsedList f els context' of
             (r, context'', effects') \<Rightarrow> (r, context'', effects @ effects')))"

definition initial_context :: "NextRequest \<Rightarrow> NextFetchEvent \<Rightarrow> HandlerContext" where
  "initial_context rq ev =
     \<lparr>req = rq, nfe = ev, body = JObj [], query = JObj [], segment = JObj [],
      headers = JObj [], errors = []\<rparr>"

definition validate_fields ::
  "Host \<Rightarrow> Setup \<Rightarrow> NextRequest \<Rightarrow> NextFetchEvent
     \<Rightarrow> response option \<times> HandlerContext \<times> effect list" where
  "validate_fields h s rq ev =
     (if schema s \<noteq> None \<and> length (toBeParsedList s) > 0
      then for_toBeParsedList (parse_el h s rq ev) (toBeParsedList s) (initial_context rq ev)
      else (None, initial_context rq ev, []))"

text \<open>
  The \<^verbatim>\<open>catch (e)\<close> of the pre-handler. \<^verbatim>\<open>e instanceof ApiHandlerError || e instanceof Error\<close>
  holds of both kinds of error; \<^verbatim>\<open>e.statusCode || 400\<close> is 400 when the code is 0 or
  \<^verbatim>\<open>NaN\<close>.

  \<open>respond_with_message\<close> is the inner \<^verbatim>\<open>try\<close>: \<^verbatim>\<open>JSON.parse(e.message)\<close> and
  \<^verbatim>\<open>NextResponse.json\<close> with the status, and, whichever of the two throws, the bare
  \<^verbatim>\<open>catch\<close> with \<^verbatim>\<open>new NextResponse(e.message, ...)\<close> and the same status. What this
  last constructor throws is caught by nothing: it leaves the adapter.

  The three responses the adapter builds with the constant status 400 are written as
  the responses they are: the constructor takes 400.
\<close>

definition status_or_400 :: "js_number \<Rightarrow> js_number" where
  "status_or_400 statusCode =
     (if statusCode = NaN \<or> statusCode = Finite 0 then Finite 400 else statusCode)"

definition pre_handler_failed :: response where
  "pre_handler_failed =
     JsonResponse
       (JObj [(''status'', JStr ''error''),
              (''statusCode'', JNum (Finite 400)),
              (''message'', JStr ''Pre-handler failed.'')])
       400"

definition respond_with_message :: "Host \<Rightarrow> string \<Rightarrow> js_number \<Rightarrow> completion" where
  "respond_with_message h msg status =
     (case (case JSON_parse h msg of
              None \<Rightarrow> None
            | Some v \<Rightarrow> (case NextResponse_json h v status of Inr r \<Rightarrow> Some r | Inl e \<Rightarrow> None)) of
        Some r \<Rightarrow> Returns (Some r)
      | None \<Rightarrow>
          (case new_NextResponse h msg status of
             Inr r \<Rightarrow> Returns (Some r)
           | Inl e \<Rightarrow> Throws e))"

fun catch_preHandler :: "Host \<Rightarrow> thrown \<Rightarrow> completion" where
  "catch_preHandler h (ApiHandlerError msg statusCode) =
     respond_with_message h msg (status_or_400 statusCode)"
| "catch_preHandler h (Error msg) = respond_with_message h msg (Finite 400)"
| "catch_preHandler h (NonError v) = Returns (Some pre_handler_failed)"

text \<open>
  From the end of the loop on: the pre-handler, if there is one, then the handler, whose
  outcome is returned as it is.
\<close>

definition run_handlers ::
  "Host \<Rightarrow> Setup \<Rightarrow> (HandlerContext \<Rightarrow> completion) \<Rightarrow> HandlerContext \<Rightarrow> completion \<times> effect list" where
  "run_handlers h s handler context =
     (case preHandler s of
        Some pre \<Rightarrow>
          (case pre context of
             Rejected e \<Rightarrow> (catch_preHandler h e, [PreHandler context])
           | Resolved context' \<Rightarrow> (handler context', [PreHandler context, Handler context']))
      | None \<Rightarrow> (handler context, [Handler context]))"

definition apiHandler ::
  "Host \<Rightarrow> Setup \<Rightarrow> (HandlerContext \<Rightarrow> completion) \<Rightarrow> NextRequest \<Rightarrow> NextFetchEvent
     \<Rightarrow> completion \<times> effect list" where
  "apiHandler h s handler rq ev =
     (case validate_fields h s rq ev of
        (Some r, context, effects) \<Rightarrow> (Returns (Some r), effects)
      | (None, context, effects) \<Rightarrow>
          (case run_handlers h s handler context of
             (result, effects') \<Rightarrow> (result, effects @ effects')))"

section \<open>Reading the effects\<close>

text \<open>
  The effects of the loop over the fields, as opposed to the calls of the callbacks; a
  validation that did not succeed; the keys in the order \<^verbatim>\<open>getData\<close> was called for
  them, and in the order \<^verbatim>\<open>safeParse\<close> was.
\<close>

fun validation_effect :: "effect \<Rightarrow> bool" where
  "validation_effect (PreHandler _) = False"
| "validation_effect (Handler _) = False"
| "validation_effect _ = True"





text \<open>
  What one pass of the loop reads and decides does not depend on the context: the
  outcome of \<^verbatim>\<open>safeParse\<close> on the data of a field, the effects of the pass, whether the
  validation fails, the issues it reports, and whether the pass returns a response.
  \<open>processed\<close> is the part of a list of fields the loop gets through: up to and
  including the first field at which it returns.
\<close>

definition field_parsed :: "Host \<Rightarrow> Setup \<Rightarrow> NextRequest \<Rightarrow> NextFetchEvent \<Rightarrow> ValidationKeys \<Rightarrow> SafeParseReturn option" where
  "field_parsed h s rq ev el = safeParse_el s el (fst (getData h (config_of s) rq ev el))"


definition field_fails :: "Host \<Rightarrow> Setup \<Rightarrow> NextRequest \<Rightarrow> NextFetchEvent \<Rightarrow> ValidationKeys \<Rightarrow> bool" where
  "field_fails h s rq ev el =
     (case field_parsed h s rq ev el of Some (Success _) \<Rightarrow> False | _ \<Rightarrow> True)"

definition field_issues :: "Host \<Rightarrow> Setup \<Rightarrow> NextRequest \<Rightarrow> NextFetchEvent \<Rightarrow> ValidationKeys \<Rightarrow> ZodIssue list" where
  "field_issues h s rq ev el =
     (case field_parsed h s rq ev el of Some (Failure is) \<Rightarrow> is | _ \<Rightarrow> [])"

definition stops_at :: "Host \<Rightarrow> Setup \<Rightarrow> NextRequest \<Rightarrow> NextFetchEvent \<Rightarrow> ValidationKeys \<Rightarrow> bool" where
  "stops_at h s rq ev el = (field_fails h s rq ev el \<and> return400ValidationError (config_of s))"

definition processed :: "Host \<Rightarrow> Setup \<Rightarrow> NextRequest \<Rightarrow> NextFetchEvent \<Rightarrow> ValidationKeys list \<Rightarrow> ValidationKeys list" where
  "processed h s rq ev els =
     takeWhile (\<lambda>k. \<not> stops_at h s rq ev k) els
       @ take 1 (dropWhile (\<lambda>k. \<not> stops_at h s rq ev k) els)"




section \<open>Sample inputs\<close>

text \<open>
  A host on which \<^verbatim>\<open>JSON.parse\<close> throws for every text \<open>JSON_text\<close> does not take;
  the examples use it on \<^verbatim>\<open>denied\<close> and \<^verbatim>\<open>boom\<close> only.
\<close>

definition rejecting :: "string \<Rightarrow> js_value option" where
  "rejecting t = None"

definition no_text :: "js_value \<Rightarrow> string" where
  "no_text v = []"

definition sample_host :: Host where
  "sample_host =
     \<lparr>parse_other = rejecting, stringify_other = no_text,
      RangeError_message = ''status out of range'',
      TypeError_message = ''null body status'',
      next_headers = []\<rparr>"

definition sample_request :: NextRequest where
  "sample_request = \<lparr>json = Some (JObj []), searchParams = []\<rparr>"

definition sample_event :: NextFetchEvent where
  "sample_event = \<lparr>params = JObj []\<rparr>"

definition handler_void :: "HandlerContext \<Rightarrow> completion" where
  "handler_void context = Returns None"

definition throwing :: "thrown \<Rightarrow> HandlerContext \<Rightarrow> pre_outcome" where
  "throwing e context = Rejected e"

definition setup_throwing :: "thrown \<Rightarrow> Setup" where
  "setup_throwing e = \<lparr>schema = None, preHandler = Some (throwing e), config = None\<rparr>"


text \<open>
  Two schemas in the manner of \<^verbatim>\<open>z.object({})\<close> and \<^verbatim>\<open>z.object({id: z.string()})\<close>.
  An object schema of zod takes any non-null object that is no array, promise, map, set or
  date for an object, a response object included, reads the keys of its shape from it and
  drops the others.
\<close>

definition z_object_empty :: ZodSchema where
  "z_object_empty data =
     (case data of
        JObj _ \<Rightarrow> Success (JObj [])
      | JResponse _ \<Rightarrow> Success (JObj [])
      | _ \<Rightarrow> Failure [\<lparr>message = ''Expected object'', path = []\<rparr>])"

definition id_required :: ZodIssue where
  "id_required = \<lparr>message = ''Required'', path = [JStr ''id'']\<rparr>"

definition z_object_id :: ZodSchema where
  "z_object_id data =
     (case data of
        JObj entries \<Rightarrow>
          (case map_of entries ''id'' of
             Some (JStr v) \<Rightarrow> Success (JObj [(''id'', JStr v)])
           | Some _ \<Rightarrow> Failure [\<lparr>message = ''Expected string'', path = [JStr ''id'']\<rparr>]
           | None \<Rightarrow> Failure [id_required])
      | JResponse _ \<Rightarrow> Failure [id_required]
      | _ \<Rightarrow> Failure [\<lparr>message = ''Expected object'', path = []\<rparr>])"

definition query_then_body :: "(ValidationKeys \<times> ZodSchema option) list" where
  "query_then_body = [(Query, Some z_object_id), (Body, Some z_object_empty)]"

definition setup_strict :: Setup where
  "setup_strict = \<lparr>schema = Some query_then_body, preHandler = None, config = None\<rparr>"

definition resolving :: "HandlerContext \<Rightarrow> pre_outcome" where
  "resolving context = Resolved context"

definition setup_lenient :: Setup where
  "setup_lenient =
     \<lparr>schema = Some query_then_body, preHandler = Some resolving,
      config = Some \<lparr>return400ValidationError = False\<rparr>\<rparr>"

definition setup_body :: "ZodSchema \<Rightarrow> Setup" where
  "setup_body sc = \<lparr>schema = Some [(Body, Some sc)], preHandler = None, config = None\<rparr>"


definition request_not_json :: NextRequest where
  "request_not_json = \<lparr>json = None, searchParams = []\<rparr>"

definition request_with_id :: NextRequest where
  "request_with_id = \<lparr>json = Some (JObj []), searchParams = [(''id'', ''abc'')]\<rparr>"




section \<open>Writing and reading JSON\<close>

text \<open>Decimal numerals.\<close>

declare decimal.simps [simp del]






















text \<open>Numbers, followed by what can follow a value in a text.\<close>

lemma strip_prefix_hit: "strip_prefix p (p @ t) = Some t"
  by (simp add: strip_prefix_def)
















lemma follow_simps [simp]: "follow (CHR '','' # t)" "follow (CHR '']'' # t)" "follow (CHR ''}'' # t)" "follow []"
  by (simp_all add: follow_def)








section \<open>The effects of validation\<close>

lemma getData_effects: "getData h cfg rq ev el = (d, l) \<Longrightarrow> list_all validation_effect l"
  by (auto simp: getData_def split: ValidationKeys.splits option.splits if_splits)

lemma parse_el_effects: "parse_el h s rq ev el c = (r, c', tr) \<Longrightarrow> list_all validation_effect tr"
  by (auto simp: parse_el_def Let_def dest: getData_effects
      split: prod.splits option.splits SafeParseReturn.splits)

lemma for_effects:
  assumes "\<And>el c r c' tr. f el c = (r, c', tr) \<Longrightarrow> list_all validation_effect tr"
  shows "for_toBeParsedList f els c = (r, c', tr) \<Longrightarrow> list_all validation_effect tr"
proof (induction els arbitrary: c r c' tr)
  case Nil
  then show ?case by simp
next
  case (Cons el els)
  obtain r1 c1 t1 where f: "f el c = (r1, c1, t1)" by (cases "f el c") auto
  have t1: "list_all validation_effect t1" using assms f by blast
  show ?case
  proof (cases r1)
    case None
    obtain r2 c2 t2 where g: "for_toBeParsedList f els c1 = (r2, c2, t2)"
      by (cases "for_toBeParsedList f els c1") auto
    have "list_all validation_effect t2" using Cons.IH g by blast
    with Cons.prems f None g t1 show ?thesis by auto
  next
    case (Some a)
    with Cons.prems f t1 show ?thesis by auto
  qed
qed

lemma validate_fields_effects:
  "validate_fields h s rq ev = (r, c, tr) \<Longrightarrow> list_all validation_effect tr"
  by (auto simp: validate_fields_def split: if_splits intro: for_effects [OF parse_el_effects])

section \<open>The pre-handler\<close>

text \<open>
  When the pre-handler was called, validation had ended without a response, the
  pre-handler was called once, with the context validation left, and what follows is
  decided by how the pre-handler ended.
\<close>

lemma apiHandler_PreHandlerD:
  assumes "apiHandler h s handler rq ev = (result, effects)" "PreHandler c \<in> set effects"
  shows "\<exists>pre tr. preHandler s = Some pre \<and> validate_fields h s rq ev = (None, c, tr) \<and>
     (case pre c of
        Rejected e \<Rightarrow> result = catch_preHandler h e \<and> effects = tr @ [PreHandler c]
      | Resolved c' \<Rightarrow> result = handler c' \<and> effects = tr @ [PreHandler c, Handler c'])"
proof -
  obtain r c0 tr where v: "validate_fields h s rq ev = (r, c0, tr)"
    by (cases "validate_fields h s rq ev") auto
  have tr: "list_all validation_effect tr" using v by (rule validate_fields_effects)
  then have notin: "PreHandler c \<notin> set tr" by (auto simp: list_all_iff)
  show ?thesis using assms v notin
    by (auto simp: apiHandler_def run_handlers_def split: option.splits pre_outcome.splits)
qed

lemma preHandler_Rejected:
  assumes "apiHandler h s handler rq ev = (result, effects)"
    and "preHandler s = Some pre"
    and "PreHandler c \<in> set effects"
    and "pre c = Rejected e"
  shows "result = catch_preHandler h e"
  using apiHandler_PreHandlerD [OF assms(1) assms(3)] assms(2,4) by auto

text \<open>The constructor of a response: the statuses it takes, and what follows in the catch.\<close>

lemma initialize_response_400: "initialize_response h (Finite 400) = Inr 400"
  by (simp add: initialize_response_def ToUint16_def null_body_status_def)

lemma initialize_response_integer:
  assumes "200 \<le> n" "n \<le> 599" "n \<noteq> 204" "n \<noteq> 205" "n \<noteq> 304"
  shows "initialize_response h (Finite (of_int n)) = Inr n"
proof -
  have "ToUint16 (Finite (of_int n)) = n"
    using assms by (simp add: ToUint16_def)
  with assms show ?thesis
    by (simp add: initialize_response_def null_body_status_def)
qed

lemma respond_with_message_Inr:
  "initialize_response h status = Inr st \<Longrightarrow>
     respond_with_message h msg status
       = Returns (Some (case JSON_parse h msg of
                          Some v \<Rightarrow> JsonResponse v st
                        | None \<Rightarrow> TextResponse msg st))"
  by (simp add: respond_with_message_def NextResponse_json_def new_NextResponse_def
      split: option.splits)

lemma respond_with_message_Inl:
  "initialize_response h status = Inl e \<Longrightarrow> respond_with_message h msg status = Throws e"
  by (simp add: respond_with_message_def NextResponse_json_def new_NextResponse_def
      split: option.splits)

lemma status_or_400_falsy:
  "statusCode = NaN \<or> statusCode = Finite 0 \<Longrightarrow> status_or_400 statusCode = Finite 400"
  by (auto simp: status_or_400_def)

lemma status_or_400_integer: "200 \<le> n \<Longrightarrow> status_or_400 (Finite (of_int n)) = Finite (of_int n)"
  by (auto simp: status_or_400_def)

lemma catch_ApiHandlerError_falsy:
  assumes "statusCode = NaN \<or> statusCode = Finite 0"
  shows "catch_preHandler h (ApiHandlerError msg statusCode)
       = Returns (Some (case JSON_parse h msg of
                          Some v \<Rightarrow> JsonResponse v 400
                        | None \<Rightarrow> TextResponse msg 400))"
  by (simp add: status_or_400_falsy [OF assms] respond_with_message_Inr [OF initialize_response_400])

lemma catch_ApiHandlerError_integer:
  assumes "200 \<le> n" "n \<le> 599" "n \<noteq> 204" "n \<noteq> 205" "n \<noteq> 304"
  shows "catch_preHandler h (ApiHandlerError msg (Finite (of_int n)))
       = Returns (Some (case JSON_parse h msg of
                          Some v \<Rightarrow> JsonResponse v n
                        | None \<Rightarrow> TextResponse msg n))"
  by (simp add: status_or_400_integer [OF assms(1)]
      respond_with_message_Inr [OF initialize_response_integer [OF assms]])

lemma catch_Error:
  "catch_preHandler h (Error msg)
       = Returns (Some (case JSON_parse h msg of
                          Some v \<Rightarrow> JsonResponse v 400
                        | None \<Rightarrow> TextResponse msg 400))"
  by (simp add: respond_with_message_Inr [OF initialize_response_400])

text \<open>
  A status the constructor refuses: its exception is the outcome of the request.
\<close>

lemma catch_ApiHandlerError_refused:
  "initialize_response h (status_or_400 statusCode) = Inl e \<Longrightarrow>
     catch_preHandler h (ApiHandlerError msg statusCode) = Throws e"
  by (simp add: respond_with_message_Inl)


text \<open>What \<^verbatim>\<open>JSON.parse\<close> and \<^verbatim>\<open>JSON.stringify\<close> do on the sample host.\<close>

lemmas json_eval = JSON_parse_def JSON_stringify_def JSON_text_def strip_prefix_def quote_char_def
  backslash_def parse_number_def canonical_digits_def is_digit_def read_decimal_def digit_value_def
  create_object_def define_property_def array_index_def cons_char_def quote_def escape_def
  own_keys_def

lemma JSON_parse_sample:
  "JSON_parse sample_host ''denied'' = None"
  "JSON_parse sample_host ''boom'' = None"
  "JSON_parse sample_host ''123'' = Some (JNum (Finite 123))"
  by (simp_all add: json_eval sample_host_def rejecting_def)

lemma sample_messages:
  "TypeError_message sample_host = ''null body status''"
  "RangeError_message sample_host = ''status out of range''"
  by (simp_all add: sample_host_def)


lemma run_setup_throwing:
  "apiHandler h (setup_throwing e) handler rq ev =
     (catch_preHandler h e, [PreHandler (initial_context rq ev)])"
  by (simp add: apiHandler_def validate_fields_def run_handlers_def setup_throwing_def throwing_def)

lemma preHandler_setup_throwing: "preHandler (setup_throwing e) = Some (throwing e)"
  by (simp add: setup_throwing_def)

lemma throwing_initial: "throwing e c = Rejected e"
  by (simp add: throwing_def)

text \<open>
  C10, as amended. When the pre-handler throws an \<^verbatim>\<open>ApiHandlerError\<close> whose
  \<^verbatim>\<open>statusCode\<close> is 0 or \<^verbatim>\<open>NaN\<close>, the adapter returns a response with status 400
  (\<^verbatim>\<open>e.statusCode || 400\<close>). When the \<^verbatim>\<open>statusCode\<close> is an integer from 200 to 599
  other than 204, 205 and 304, the adapter returns a response whose status is that
  integer.
\<close>

theorem preHandler_status_or_400:
  assumes "apiHandler h s handler rq ev = (result, effects)"
    and "preHandler s = Some pre"
    and "PreHandler c \<in> set effects"
    and "pre c = Rejected (ApiHandlerError msg statusCode)"
  shows "(statusCode = NaN \<or> statusCode = Finite 0 \<longrightarrow>
            (\<exists>r. result = Returns (Some r) \<and> status_of r = 400)) \<and>
         (\<forall>n. statusCode = Finite (of_int n) \<and> 200 \<le> n \<and> n \<le> 599
                \<and> n \<noteq> 204 \<and> n \<noteq> 205 \<and> n \<noteq> 304 \<longrightarrow>
            (\<exists>r. result = Returns (Some r) \<and> status_of r = n))"
proof -
  note result = preHandler_Rejected [OF assms]
  have "\<exists>r. result = Returns (Some r) \<and> status_of r = 400"
    if "statusCode = NaN \<or> statusCode = Finite 0"
    unfolding result catch_ApiHandlerError_falsy [OF that]
    by (cases "JSON_parse h msg") simp_all
  moreover have "\<exists>r. result = Returns (Some r) \<and> status_of r = n"
    if "statusCode = Finite (of_int n)" "200 \<le> n" "n \<le> 599" "n \<noteq> 204" "n \<noteq> 205" "n \<noteq> 304" for n
    unfolding result that(1) catch_ApiHandlerError_integer [OF that(2-6)]
    by (cases "JSON_parse h msg") simp_all
  ultimately show ?thesis
    by blast
qed

theorem preHandler_status_or_400_witness:
  "(\<exists>r. fst (apiHandler sample_host (setup_throwing (ApiHandlerError ''denied'' (Finite 0)))
            handler_void sample_request sample_event) = Returns (Some r) \<and> status_of r = 400) \<and>
   (\<exists>r. fst (apiHandler sample_host (setup_throwing (ApiHandlerError ''denied'' NaN))
            handler_void sample_request sample_event) = Returns (Some r) \<and> status_of r = 400) \<and>
   (\<exists>r. fst (apiHandler sample_host (setup_throwing (ApiHandlerError ''denied'' (Finite 403)))
            handler_void sample_request sample_event) = Returns (Some r) \<and> status_of r = 403)"
proof -
  let ?c = "initial_context sample_request sample_event"
  let ?run = "\<lambda>e. apiHandler sample_host (setup_throwing e) handler_void sample_request sample_event"
  have run: "?run e = (fst (?run e), [PreHandler ?c])" for e
    by (simp add: run_setup_throwing)
  have pre: "preHandler (setup_throwing e) = Some (throwing e)" for e
    by (rule preHandler_setup_throwing)
  have mem: "PreHandler ?c \<in> set [PreHandler ?c]"
    by simp
  have thr: "throwing e ?c = Rejected e" for e
    by (rule throwing_initial)
  note zero = preHandler_status_or_400 [OF run pre mem thr [of "ApiHandlerError ''denied'' (Finite 0)"]]
  note nan = preHandler_status_or_400 [OF run pre mem thr [of "ApiHandlerError ''denied'' NaN"]]
  note code = preHandler_status_or_400 [OF run pre mem thr [of "ApiHandlerError ''denied'' (Finite 403)"]]
  have 1: "\<exists>r. fst (?run (ApiHandlerError ''denied'' (Finite 0))) = Returns (Some r) \<and> status_of r = 400"
    using zero [THEN conjunct1] by simp
  have 2: "\<exists>r. fst (?run (ApiHandlerError ''denied'' NaN)) = Returns (Some r) \<and> status_of r = 400"
    using nan [THEN conjunct1] by simp
  have 3: "\<exists>r. fst (?run (ApiHandlerError ''denied'' (Finite 403))) = Returns (Some r) \<and> status_of r = 403"
    using code [THEN conjunct2, rule_format, of 403] by simp
  from 1 2 3 show ?thesis
    by (intro conjI)
qed

text \<open>
  C10 as stated fails for truthy status codes: the declared 65939 is answered with
  status 403, and for the declared 204 and -1 there is no response at all: the
  constructor throws and the exception leaves the adapter.
\<close>

theorem declared_status_not_used_counterexample:
  "fst (apiHandler sample_host (setup_throwing (ApiHandlerError ''denied'' (Finite 65939)))
          handler_void sample_request sample_event)
     = Returns (Some (TextResponse ''denied'' 403))
   \<and> status_of (TextResponse ''denied'' 403) \<noteq> 65939
   \<and> fst (apiHandler sample_host (setup_throwing (ApiHandlerError ''denied'' (Finite 204)))
          handler_void sample_request sample_event)
     = Throws (Error ''null body status'')
   \<and> fst (apiHandler sample_host (setup_throwing (ApiHandlerError ''denied'' (Finite (- 1))))
          handler_void sample_request sample_event)
     = Throws (Error ''status out of range'')"
  by (simp add: run_setup_throwing respond_with_message_def NextResponse_json_def
      new_NextResponse_def initialize_response_def ToUint16_def null_body_status_def
      status_or_400_def JSON_parse_sample sample_messages)






text \<open>
  C5, as amended. When the pre-handler throws an \<^verbatim>\<open>ApiHandlerError\<close> built from a
  string that \<^verbatim>\<open>JSON.parse\<close> rejects and from a status code, the adapter returns a
  plain-text response whose body is that string. The status of the response is 400 when
  the status code is 0 or \<^verbatim>\<open>NaN\<close>, and the status code itself when that is an integer
  from 200 to 599 other than 204, 205 and 304.
\<close>

theorem ApiHandlerError_text_body:
  assumes "apiHandler h s handler rq ev = (result, effects)"
    and "preHandler s = Some pre"
    and "PreHandler c \<in> set effects"
    and "pre c = Rejected (new_ApiHandlerError h (JStr msg) (Some statusCode))"
    and "JSON_parse h msg = None"
  shows "(statusCode = NaN \<or> statusCode = Finite 0 \<longrightarrow>
            result = Returns (Some (TextResponse msg 400))) \<and>
         (\<forall>n. statusCode = Finite (of_int n) \<and> 200 \<le> n \<and> n \<le> 599
                \<and> n \<noteq> 204 \<and> n \<noteq> 205 \<and> n \<noteq> 304 \<longrightarrow>
            result = Returns (Some (TextResponse msg n)))"
proof -
  have "new_ApiHandlerError h (JStr msg) (Some statusCode) = ApiHandlerError msg statusCode"
    by (simp add: new_ApiHandlerError_def)
  with preHandler_Rejected [OF assms(1-4)]
  have result: "result = catch_preHandler h (ApiHandlerError msg statusCode)"
    by simp
  have "result = Returns (Some (TextResponse msg 400))"
    if "statusCode = NaN \<or> statusCode = Finite 0"
    unfolding result catch_ApiHandlerError_falsy [OF that] assms(5) by simp
  moreover have "result = Returns (Some (TextResponse msg n))"
    if "statusCode = Finite (of_int n)" "200 \<le> n" "n \<le> 599" "n \<noteq> 204" "n \<noteq> 205" "n \<noteq> 304" for n
    unfolding result that(1) catch_ApiHandlerError_integer [OF that(2-6)] assms(5) by simp
  ultimately show ?thesis
    by blast
qed

theorem ApiHandlerError_text_body_witness:
  "fst (apiHandler sample_host
          (setup_throwing (new_ApiHandlerError sample_host (JStr ''denied'') (Some (Finite 403))))
          handler_void sample_request sample_event)
     = Returns (Some (TextResponse ''denied'' 403))
   \<and> fst (apiHandler sample_host
          (setup_throwing (new_ApiHandlerError sample_host (JStr ''denied'') (Some NaN)))
          handler_void sample_request sample_event)
     = Returns (Some (TextResponse ''denied'' 400))"
proof -
  let ?e = "\<lambda>x. new_ApiHandlerError sample_host (JStr ''denied'') (Some x)"
  let ?c = "initial_context sample_request sample_event"
  have run: "apiHandler sample_host (setup_throwing (?e x)) handler_void sample_request sample_event
      = (catch_preHandler sample_host (?e x), [PreHandler ?c])" for x
    by (rule run_setup_throwing)
  have pre: "preHandler (setup_throwing (?e x)) = Some (throwing (?e x))" for x
    by (rule preHandler_setup_throwing)
  have mem: "PreHandler ?c \<in> set [PreHandler ?c]"
    by simp
  have thr: "throwing (?e x) ?c = Rejected (?e x)" for x
    by (rule throwing_initial)
  note code = ApiHandlerError_text_body [OF run pre mem thr [of "Finite 403"] JSON_parse_sample(1)]
  note nan = ApiHandlerError_text_body [OF run pre mem thr [of NaN] JSON_parse_sample(1)]
  from code [THEN conjunct2, rule_format, of 403]
  have 1: "catch_preHandler sample_host (?e (Finite 403)) = Returns (Some (TextResponse ''denied'' 403))"
    by simp
  from nan [THEN conjunct1]
  have 2: "catch_preHandler sample_host (?e NaN) = Returns (Some (TextResponse ''denied'' 400))"
    by simp
  from 1 2 show ?thesis
    unfolding run fst_conv by (intro conjI)
qed

text \<open>
  C5 as stated fails twice: with the message \<^verbatim>\<open>'denied'\<close> and the status code 0 the
  status is 400; with the message \<^verbatim>\<open>'123'\<close>, a string that is JSON, the response is a
  JSON response with the number 123 as its body, not a plain-text one.
\<close>

theorem ApiHandlerError_string_counterexample:
  "fst (apiHandler sample_host
          (setup_throwing (new_ApiHandlerError sample_host (JStr ''denied'') (Some (Finite 0))))
          handler_void sample_request sample_event)
     = Returns (Some (TextResponse ''denied'' 400))
   \<and> status_of (TextResponse ''denied'' 400) \<noteq> 0
   \<and> fst (apiHandler sample_host
          (setup_throwing (new_ApiHandlerError sample_host (JStr ''123'') (Some (Finite 403))))
          handler_void sample_request sample_event)
     = Returns (Some (JsonResponse (JNum (Finite 123)) 403))
   \<and> JsonResponse (JNum (Finite 123)) 403 \<noteq> TextResponse ''123'' 403"
proof -
  have "catch_preHandler sample_host (ApiHandlerError ''123'' (Finite 403))
      = Returns (Some (JsonResponse (JNum (Finite 123)) 403))"
    using catch_ApiHandlerError_integer [of 403 sample_host "''123''"]
    by (simp add: JSON_parse_sample del: catch_preHandler.simps)
  then show ?thesis
    by (simp add: run_setup_throwing new_ApiHandlerError_def catch_ApiHandlerError_falsy
        JSON_parse_sample del: catch_preHandler.simps)
qed

text \<open>
  C6, as amended. When the pre-handler throws a value that is no \<^verbatim>\<open>Error\<close>, the
  adapter returns the fixed response \<^verbatim>\<open>{status: 'error', statusCode: 400, message:
  'Pre-handler failed.'}\<close> with status 400, whatever the value. When it throws an
  \<^verbatim>\<open>Error\<close> that is no \<^verbatim>\<open>ApiHandlerError\<close>, the adapter returns status 400 with the
  error's message as the body: parsed, if it is JSON, as plain text otherwise.
\<close>

theorem preHandler_other_thrown:
  assumes "apiHandler h s handler rq ev = (result, effects)"
    and "preHandler s = Some pre"
    and "PreHandler c \<in> set effects"
    and "pre c = Rejected e"
  shows "(\<forall>v. e = NonError v \<longrightarrow>
            result = Returns (Some (JsonResponse
              (JObj [(''status'', JStr ''error''),
                     (''statusCode'', JNum (Finite 400)),
                     (''message'', JStr ''Pre-handler failed.'')])
              400))) \<and>
         (\<forall>msg. e = Error msg \<longrightarrow>
            result = Returns (Some (case JSON_parse h msg of
                                      Some v \<Rightarrow> JsonResponse v 400
                                    | None \<Rightarrow> TextResponse msg 400)))"
  using preHandler_Rejected [OF assms]
  by (auto simp: catch_Error pre_handler_failed_def simp del: catch_preHandler.simps(2))

theorem preHandler_other_thrown_witness:
  "fst (apiHandler sample_host (setup_throwing (NonError (JStr ''secret''))) handler_void
          sample_request sample_event)
     = Returns (Some (JsonResponse
         (JObj [(''status'', JStr ''error''),
                (''statusCode'', JNum (Finite 400)),
                (''message'', JStr ''Pre-handler failed.'')])
         400))
   \<and> fst (apiHandler sample_host (setup_throwing (Error ''boom'')) handler_void
          sample_request sample_event)
     = Returns (Some (TextResponse ''boom'' 400))"
proof -
  let ?c = "initial_context sample_request sample_event"
  have run: "apiHandler sample_host (setup_throwing e) handler_void sample_request sample_event
      = (catch_preHandler sample_host e, [PreHandler ?c])" for e
    by (rule run_setup_throwing)
  have pre: "preHandler (setup_throwing e) = Some (throwing e)" for e
    by (rule preHandler_setup_throwing)
  have mem: "PreHandler ?c \<in> set [PreHandler ?c]"
    by simp
  have thr: "throwing e ?c = Rejected e" for e
    by (rule throwing_initial)
  from preHandler_other_thrown [OF run pre mem thr, of "NonError (JStr ''secret'')",
      THEN conjunct1, rule_format, of "JStr ''secret''"]
  have 1: "catch_preHandler sample_host (NonError (JStr ''secret''))
      = Returns (Some (JsonResponse
         (JObj [(''status'', JStr ''error''),
                (''statusCode'', JNum (Finite 400)),
                (''message'', JStr ''Pre-handler failed.'')])
         400))"
    by simp
  from preHandler_other_thrown [OF run pre mem thr, of "Error ''boom''",
      THEN conjunct2, rule_format, of "''boom''"]
  have 2: "catch_preHandler sample_host (Error ''boom'') = Returns (Some (TextResponse ''boom'' 400))"
    by (simp add: JSON_parse_sample del: catch_preHandler.simps)
  from 1 2 show ?thesis
    unfolding run fst_conv by (intro conjI)
qed

text \<open>
  C6 as stated fails: with \<^verbatim>\<open>throw new Error('boom')\<close> the client receives the text
  \<^verbatim>\<open>boom\<close>, not the fixed response.
\<close>

theorem preHandler_Error_counterexample:
  "fst (apiHandler sample_host (setup_throwing (Error ''boom'')) handler_void
          sample_request sample_event)
     = Returns (Some (TextResponse ''boom'' 400))
   \<and> TextResponse ''boom'' 400
       \<noteq> JsonResponse
           (JObj [(''status'', JStr ''error''),
                  (''statusCode'', JNum (Finite 400)),
                  (''message'', JStr ''Pre-handler failed.'')])
           400"
  by (simp add: run_setup_throwing catch_Error JSON_parse_sample del: catch_preHandler.simps)

section \<open>One field at a time\<close>

lemma get_set_field [simp]: "get_field k (set_field el v c) = (if k = el then v else get_field k c)"
  by (cases k; cases el) simp_all

lemma get_field_errors [simp]: "get_field k (c\<lparr>errors := x\<rparr>) = get_field k c"
  by (cases k) simp_all

lemma errors_set_field [simp]: "errors (set_field el v c) = errors c"
  by (cases el) simp_all

lemma get_field_initial [simp]: "get_field k (initial_context rq ev) = JObj []"
  by (cases k) (simp_all add: initial_context_def)

lemma errors_initial [simp]: "errors (initial_context rq ev) = []"
  by (simp add: initial_context_def)


lemma parse_el_result:
  "parse_el h s rq ev el c = (r, c', tr) \<Longrightarrow>
     r = (if field_fails h s rq ev el \<and> return400ValidationError (config_of s)
          then Some (validationError (key_name el) (first_issue (field_issues h s rq ev el)))
          else None)"
  by (auto simp: parse_el_def field_fails_def field_issues_def field_parsed_def Let_def first_issue_def
      split: prod.splits option.splits SafeParseReturn.splits)




text \<open>The loop: its effects, its response, the issues and the fields it leaves.\<close>

lemma processed_Nil [simp]: "processed h s rq ev [] = []"
  by (simp add: processed_def)





lemma loop_result:
  "for_toBeParsedList (parse_el h s rq ev) els c = (r, c', tr) \<Longrightarrow>
     r = (case dropWhile (\<lambda>k. \<not> stops_at h s rq ev k) els of
            [] \<Rightarrow> None
          | k # _ \<Rightarrow> Some (validationError (key_name k) (first_issue (field_issues h s rq ev k))))"
proof (induction els arbitrary: c r c' tr)
  case Nil
  then show ?case by simp
next
  case (Cons el els)
  obtain r1 c1 t1 where step: "parse_el h s rq ev el c = (r1, c1, t1)"
    by (cases "parse_el h s rq ev el c") auto
  note r1 = parse_el_result [OF step]
  show ?case
  proof (cases "stops_at h s rq ev el")
    case True
    with Cons.prems step r1 show ?thesis
      by (simp add: stops_at_def)
  next
    case False
    obtain r2 c2 t2 where rest: "for_toBeParsedList (parse_el h s rq ev) els c1 = (r2, c2, t2)"
      by (cases "for_toBeParsedList (parse_el h s rq ev) els c1") auto
    from False r1 have "r1 = None" by (auto simp: stops_at_def)
    with Cons.prems step rest Cons.IH [OF rest] False show ?thesis
      by simp
  qed
qed




section \<open>The whole request\<close>

text \<open>
  Either validation returned a response, which is the result, or it left a context and
  the callbacks ran on it.
\<close>

lemma validate_fields_loop:
  "validate_fields h s rq ev =
     for_toBeParsedList (parse_el h s rq ev) (toBeParsedList s) (initial_context rq ev)"
  by (auto simp: validate_fields_def toBeParsedList_def)

lemma apiHandler_cases:
  assumes "apiHandler h s handler rq ev = (result, effects)"
  obtains (responded) r c where "validate_fields h s rq ev = (Some r, c, effects)"
      and "result = Returns (Some r)"
    | (continued) c tr where "validate_fields h s rq ev = (None, c, tr)"
      and "result = fst (run_handlers h s handler c)"
      and "effects = tr @ snd (run_handlers h s handler c)"
proof -
  obtain r c tr where v: "validate_fields h s rq ev = (r, c, tr)"
    by (cases "validate_fields h s rq ev") auto
  show thesis
  proof (cases r)
    case None
    with assms v show ?thesis
      by (intro continued [of c tr]) (auto simp: apiHandler_def split: prod.splits)
  next
    case (Some a)
    with assms v show ?thesis
      by (intro responded [of a c]) (auto simp: apiHandler_def)
  qed
qed





lemma run_handlers_first:
  "\<exists>rest. snd (run_handlers h s handler c) =
     (case preHandler s of None \<Rightarrow> Handler c | Some pre \<Rightarrow> PreHandler c) # rest"
  by (auto simp: run_handlers_def split: option.splits pre_outcome.splits)



















section \<open>Sample runs\<close>

lemmas run_defs = apiHandler_def validate_fields_def run_handlers_def toBeParsedList_def
  parse_el_def getData_def safeParse_el_def config_of_def defaultConfig_def objectFromEntries_def
  obj_set_def define_property_def array_index_def canonical_digits_def is_digit_def
  first_issue_def z_object_empty_def z_object_id_def query_then_body_def
  setup_strict_def setup_lenient_def setup_body_def request_not_json_def request_with_id_def
  sample_host_def sample_event_def handler_void_def resolving_def id_required_def





lemma run_body_empty_not_json:
  "apiHandler sample_host (setup_body z_object_empty) handler_void request_not_json sample_event =
     (Returns None,
      [GetData Body,
       SafeParse Body (JResponse (invalid_json_response Body)) (Some (Success (JObj []))),
       Handler ((initial_context request_not_json sample_event)\<lparr>body := JObj []\<rparr>)])"
  by (simp add: run_defs)

lemma run_body_id_not_json:
  "apiHandler sample_host (setup_body z_object_id) handler_void request_not_json sample_event =
     (Returns (Some (validationError ''body'' (Some id_required))),
      [GetData Body,
       SafeParse Body (JResponse (invalid_json_response Body)) (Some (Failure [id_required]))])"
  by (simp add: run_defs)







section \<open>Validation\<close>




text \<open>
  Every response of the validation stage is a \<^verbatim>\<open>validationError\<close>; so, unless a callback
  returns it, no request is answered with the response for invalid JSON.
\<close>

lemma validate_fields_response:
  assumes "validate_fields h s rq ev = (Some r, c, tr)"
  shows "\<exists>k i. r = validationError (key_name k) i"
  using loop_result [OF assms [unfolded validate_fields_loop]]
  by (auto split: list.splits)

lemma validationError_not_invalid_json: "validationError t i \<noteq> invalid_json_response k"
  by (simp add: validationError_def invalid_json_response_def)

lemma invalid_json_response_never_returned:
  assumes "apiHandler h s handler rq ev = (Returns (Some r), effects)"
    and "\<forall>c. PreHandler c \<notin> set effects \<and> Handler c \<notin> set effects"
  shows "r \<noteq> invalid_json_response k"
  using assms(1)
proof (cases rule: apiHandler_cases)
  case (responded r' c)
  with validate_fields_response [OF responded(1)] validationError_not_invalid_json
  show ?thesis by auto
next
  case (continued c tr)
  from run_handlers_first [of h s handler c] continued(3) assms(2)
  show ?thesis by (cases "preHandler s") auto
qed

text \<open>
  C2, on the code. With the default config, a body schema and a body that is not JSON,
  the response \<^verbatim>\<open>{type: 'body', status: 'error', message: 'Invalid JSON body provided',
  path: []}\<close> is what \<^verbatim>\<open>getData\<close> returns, and the loop validates it as the data of the
  field. With a schema that takes every object the validation succeeds and the handler
  runs; with a schema that requires a key the client receives the
  \<^verbatim>\<open>validation_error\<close> of that key. In neither case does it receive the response for
  invalid JSON.
\<close>

theorem invalid_json_response_lost:
  "fst (apiHandler sample_host (setup_body z_object_empty) handler_void request_not_json sample_event)
     = Returns None \<and>
   snd (apiHandler sample_host (setup_body z_object_empty) handler_void request_not_json sample_event)
     = [GetData Body,
        SafeParse Body (JResponse (invalid_json_response Body)) (Some (Success (JObj []))),
        Handler ((initial_context request_not_json sample_event)\<lparr>body := JObj []\<rparr>)] \<and>
   fst (apiHandler sample_host (setup_body z_object_id) handler_void request_not_json sample_event)
     = Returns (Some (validationError ''body'' (Some id_required))) \<and>
   validationError ''body'' (Some id_required) \<noteq> invalid_json_response Body"
  by (simp add: run_body_empty_not_json run_body_id_not_json validationError_def
      invalid_json_response_def)












end
